theory Spec2Isabelle
  imports Main "HOL-Library.Word"
begin

section \<open>The topological sorter (src/tsort.h)\<close>

text \<open>
  \<^verbatim>\<open>template<class T> struct Edge { T predecessor; T successor; };\<close>

  The edge list is a \<^verbatim>\<open>std::list<Edge<T>*>\<close>. An element is modelled by the
  \<open>Edge\<close> object it points to: every pointer in the list is taken to be valid.
  The node lists (\<^verbatim>\<open>std::list<T>\<close>) are HOL lists.
\<close>

record 'a Edge =
  predecessor :: 'a
  successor :: 'a

text \<open>
  The inner loop of \<open>tsort\<close> keeps an iterator into the edge list while it erases
  elements of that list, so the iterator is part of the model. An iterator designates the
  element at a position, the position \<open>length xs\<close> being \<^verbatim>\<open>end()\<close>.
  \<^verbatim>\<open>std::list::remove\<close> invalidates the iterators (and references) to the elements it
  erases and no others; reading through an invalidated iterator has no defined behaviour
  in C++, which the model returns as a \<open>fault\<close>.
\<close>

datatype iterator = Iter nat | Invalidated

datatype fault = Invalid_iterator

text \<open>\<^verbatim>\<open>xs.remove(v)\<close>, with what becomes of an iterator \<open>it\<close> into \<open>xs\<close>.\<close>

definition list_remove :: "'v \<Rightarrow> 'v list \<Rightarrow> iterator \<Rightarrow> 'v list \<times> iterator" where
  "list_remove v xs it =
     (removeAll v xs,
      case it of
        Invalidated \<Rightarrow> Invalidated
      | Iter i \<Rightarrow>
          if i < length xs \<and> xs ! i = v then Invalidated
          else Iter (i - length (filter (\<lambda>x. x = v) (take i xs))))"

text \<open>\<^verbatim>\<open>*it\<close>\<close>

definition deref :: "'v list \<Rightarrow> iterator \<Rightarrow> fault + 'v" where
  "deref xs it =
     (case it of
        Invalidated \<Rightarrow> Inl Invalid_iterator
      | Iter i \<Rightarrow> if i < length xs then Inr (xs ! i) else Inl Invalid_iterator)"

text \<open>
  \<^verbatim>\<open>
  bool is_zero(T& node, std::list<Edge<T>*>& edges)
  {
    for (it = edges.begin(); it != edges.end(); it++)
      if ((*it)->successor == node)
        return false;
    return true;
  }
  \<close>
\<close>

fun is_zero :: "'a \<Rightarrow> 'a Edge list \<Rightarrow> bool" where
  "is_zero node [] = True"
| "is_zero node (e # es) = (if successor e = node then False else is_zero node es)"

text \<open>
  \<^verbatim>\<open>
  std::list<T> *zeros = new std::list<T>(nodes);
  for (it = edges.begin(); !zeros->empty() && it != edges.end(); it++)
    zeros->remove((*it)->successor);
  return zeros;
  \<close>
  The iterator runs over \<open>edges\<close> and the removal is from \<open>zeros\<close>: it stays valid.
\<close>

fun get_zeros_loop :: "'a list \<Rightarrow> 'a Edge list \<Rightarrow> 'a list" where
  "get_zeros_loop zeros [] = zeros"
| "get_zeros_loop zeros (e # es) =
     (if zeros = [] then zeros else get_zeros_loop (removeAll (successor e) zeros) es)"

definition get_zeros :: "'a list \<Rightarrow> 'a Edge list \<Rightarrow> 'a list" where
  "get_zeros nodes edges = get_zeros_loop nodes edges"

text \<open>
  The loop over the edges in the body of the \<^verbatim>\<open>while\<close> of \<open>tsort\<close>:
  \<^verbatim>\<open>
  for (it = edges.begin(); it != edges.end();) {
    if ((*it)->predecessor != zero) {
      it++;
      continue;
    } else {
      edges.remove(*it);
      if (is_zero((*it)->successor, edges))
        zeros->push_back((*it)->successor);
      delete *it;
    }
  }
  \<close>
  In the \<^verbatim>\<open>else\<close> branch \<^verbatim>\<open>edges.remove(*it)\<close> erases the element that \<open>it\<close>
  designates, the next expression reads \<^verbatim>\<open>*it\<close>, and \<open>it\<close> is not assigned again.
  \<^verbatim>\<open>delete *it\<close> frees the \<open>Edge\<close> object and changes no list.
\<close>

function edge_loop ::
  "'a \<Rightarrow> iterator \<Rightarrow> 'a Edge list \<Rightarrow> 'a list \<Rightarrow> fault + ('a Edge list \<times> 'a list)" where
  "edge_loop zero it edges zeros =
     (case it of
        Invalidated \<Rightarrow> Inl Invalid_iterator
      | Iter i \<Rightarrow>
          if length edges \<le> i then Inr (edges, zeros)
          else if predecessor (edges ! i) \<noteq> zero
          then edge_loop zero (Iter (Suc i)) edges zeros
          else
            (case list_remove (edges ! i) edges it of
               (edges', it') \<Rightarrow>
                 (case deref edges' it' of
                    Inl f \<Rightarrow> Inl f
                  | Inr e \<Rightarrow>
                      edge_loop zero it' edges'
                        (if is_zero (successor e) edges'
                         then zeros @ [successor e] else zeros))))"
  by pat_completeness auto
termination
  apply (relation "measure (\<lambda>(zero, it, edges, zeros).
    case it of Invalidated \<Rightarrow> 0 | Iter i \<Rightarrow> length edges - i)")
    apply simp
   apply simp
  apply (simp add: list_remove_def deref_def)
  done

declare edge_loop.simps [simp del]

lemma edge_loop_unfold:
  "edge_loop zero (Iter i) edges zeros =
     (if length edges \<le> i then Inr (edges, zeros)
      else if predecessor (edges ! i) \<noteq> zero
      then edge_loop zero (Iter (Suc i)) edges zeros
      else Inl Invalid_iterator)"
  by (subst edge_loop.simps) (simp add: list_remove_def deref_def)

lemma edge_loop_Invalidated: "edge_loop zero Invalidated edges zeros = Inl Invalid_iterator"
  by (subst edge_loop.simps) simp

lemma edge_loop_Inr:
  "edge_loop zero it edges zeros = Inr (edges', zeros') \<Longrightarrow> edges' = edges \<and> zeros' = zeros"
proof (induction "case it of Invalidated \<Rightarrow> 0 | Iter i \<Rightarrow> length edges - i"
    arbitrary: it rule: less_induct)
  case less
  show ?case
  proof (cases it)
    case Invalidated
    with less.prems show ?thesis by (simp add: edge_loop_Invalidated)
  next
    case (Iter i)
    from less.prems Iter
    have unfolded:
      "(if length edges \<le> i then Inr (edges, zeros)
        else if predecessor (edges ! i) \<noteq> zero
        then edge_loop zero (Iter (Suc i)) edges zeros
        else Inl Invalid_iterator) = Inr (edges', zeros')"
      using edge_loop_unfold [of zero i edges zeros] by simp
    show ?thesis
    proof (cases "length edges \<le> i")
      case True
      with unfolded show ?thesis by simp
    next
      case False
      with unfolded
      have step: "edge_loop zero (Iter (Suc i)) edges zeros = Inr (edges', zeros')"
        by (cases "predecessor (edges ! i) \<noteq> zero") simp_all
      from False Iter show ?thesis
        by (intro less.hyps [OF _ step]) simp
    qed
  qed
qed

text \<open>
  The \<^verbatim>\<open>while (!zeros->empty())\<close> loop of \<open>tsort\<close>:
  \<^verbatim>\<open>
  T zero = zeros->front();
  zeros->pop_front();
  sorted_nodes->push_back(zero);
  for (...) { ... }
  \<close>
\<close>

function tsort_loop ::
  "'a list \<Rightarrow> 'a Edge list \<Rightarrow> 'a list \<Rightarrow> fault + ('a Edge list \<times> 'a list)" where
  "tsort_loop zeros edges sorted_nodes =
     (case zeros of
        [] \<Rightarrow> Inr (edges, sorted_nodes)
      | zero # rest \<Rightarrow>
          (case edge_loop zero (Iter 0) edges rest of
             Inl f \<Rightarrow> Inl f
           | Inr (edges', zeros') \<Rightarrow> tsort_loop zeros' edges' (sorted_nodes @ [zero])))"
  by pat_completeness auto
termination
  apply (relation "measure (\<lambda>(zeros, edges, sorted_nodes). length zeros)")
   apply simp
  apply (auto dest: edge_loop_Inr)
  done

declare tsort_loop.simps [simp del]

text \<open>
  \<^verbatim>\<open>
  template<class T> bool tsort(std::list<T>& nodes, std::list<Edge<T>*>& edges)
  {
    std::list<T> *sorted_nodes = new std::list<T>;
    std::list<T> *zeros = get_zeros(nodes, edges);
    while (!zeros->empty()) { ... }
    result = edges.empty();
    if (result)
      nodes.assign(sorted_nodes->begin(), sorted_nodes->end());
    delete sorted_nodes;
    return result;
  }
  \<close>
  The model returns the result together with the two lists passed by reference, as they
  are on return.
\<close>

definition tsort :: "'a list \<Rightarrow> 'a Edge list \<Rightarrow> fault + (bool \<times> 'a list \<times> 'a Edge list)" where
  "tsort nodes edges =
     (case tsort_loop (get_zeros nodes edges) edges [] of
        Inl f \<Rightarrow> Inl f
      | Inr (edges', sorted_nodes) \<Rightarrow>
          (let result = (edges' = [])
           in Inr (result, if result then sorted_nodes else nodes, edges')))"

section \<open>The operating system, as the C code sees it\<close>

text \<open>
  \<^verbatim>\<open>signals.c\<close> and \<^verbatim>\<open>process.c\<close> act through system calls. The model passes the
  state of the process explicitly: the part of the kernel's per-process state that the
  code reads or writes (signal mask, signal dispositions, the real-time interval timer),
  the globals of the program, and a trace of the calls made. What a call returns is the
  environment's choice: the state holds an oracle \<open>replies\<close>, and each call whose result
  the code uses takes the next reply. A theorem that holds for every state holds for
  every behaviour of the environment.
\<close>

datatype signal =
  SIGHUP | SIGKILL | SIGUSR1 | SIGUSR2 | SIGALRM | SIGTERM | SIGCHLD | SIGCONT
  | SIGTSTP | SIGTTIN | SIGTTOU

text \<open>A handler is \<^verbatim>\<open>SIG_DFL\<close>, \<^verbatim>\<open>SIG_IGN\<close> or one of the program's functions.\<close>

datatype handler =
  SIG_DFL | SIG_IGN
  | Fn_ignore_sigalarm | Fn_release_vt | Fn_acquire_vt | Fn_signal_ignorer | Fn_signal_die

record sigaction =
  sa_handler :: handler
  sa_mask :: "signal set"
  sa_flags :: int

record itimerval =
  it_interval_sec :: int
  it_interval_usec :: int
  it_value_sec :: int
  it_value_usec :: int

datatype ioctl_request = VT_RELDISP

datatype event =
    Ev_waitpid int int
  | Ev_kill int signal
  | Ev_sigaction signal sigaction
  | Ev_setitimer itimerval
  | Ev_sigprocmask "signal set"
  | Ev_ioctl int ioctl_request int
  | Ev_pipe "(int \<times> int) option"
  | Ev_fork int
  | Ev_dup2 int int
  | Ev_open_devnull int
  | Ev_close int
  | Ev_setgid
  | Ev_setuid
  | Ev_function
  | Ev_execv
  | Ev_restore_terminal

record world =
  replies :: "nat \<Rightarrow> int"
  calls :: nat
  trace :: "event list"
  sigmask :: "signal set"
  actions :: "signal \<Rightarrow> sigaction"
  itimer_real :: itimerval
  o_lock_all :: int
  vfd :: int
  osig :: "signal set"
  devnull_fd :: int

text \<open>
  \<open>o_lock_all\<close> and \<open>vfd\<close> are the globals that \<^verbatim>\<open>signals.c\<close> takes from
  \<^verbatim>\<open>vlock.h\<close>, \<open>osig\<close> is its \<^verbatim>\<open>static sigset_t osig\<close>, and \<open>devnull_fd\<close> is the
  \<^verbatim>\<open>static int devnull_fd\<close> of \<open>open_devnull\<close>, which starts at \<open>-1\<close>.
\<close>

text \<open>How a function ends: it returns, or the process exits or replaces its image.\<close>

datatype 'a control = Return 'a | Exit int | Exec

definition WNOHANG :: int where
  "WNOHANG = 1"

definition STDIN_FILENO :: int where
  "STDIN_FILENO = 0"

definition STDOUT_FILENO :: int where
  "STDOUT_FILENO = 1"

definition STDERR_FILENO :: int where
  "STDERR_FILENO = 2"

definition VT_ACKACQ :: int where
  "VT_ACKACQ = 2"

definition reply :: "world \<Rightarrow> int \<times> world" where
  "reply w = (replies w (calls w), w\<lparr>calls := Suc (calls w)\<rparr>)"

definition emit :: "event \<Rightarrow> world \<Rightarrow> world" where
  "emit e w = w\<lparr>trace := trace w @ [e]\<rparr>"

text \<open>\<^verbatim>\<open>sigaction(sig, &act, &oldact)\<close>: the result is the previous disposition.\<close>

definition sys_sigaction :: "signal \<Rightarrow> sigaction \<Rightarrow> world \<Rightarrow> sigaction \<times> world" where
  "sys_sigaction sig act w =
     (actions w sig, emit (Ev_sigaction sig act) (w\<lparr>actions := (actions w)(sig := act)\<rparr>))"

text \<open>
  \<^verbatim>\<open>setitimer(ITIMER_REAL, &timer, &otimer)\<close>. The kernel accepts a time value only in
  canonical form: seconds not negative and microseconds from \<open>0\<close> to \<open>999999\<close>. For any
  other value the call fails with \<^verbatim>\<open>EINVAL\<close>: it returns \<open>-1\<close>, arms nothing and does
  not write \<open>otimer\<close>. The result is the return code and, when the call succeeds, the
  previous timer that it stores in \<open>otimer\<close>.
\<close>

definition canonical_timeval :: "int \<Rightarrow> int \<Rightarrow> bool" where
  "canonical_timeval sec usec \<longleftrightarrow> 0 \<le> sec \<and> 0 \<le> usec \<and> usec \<le> 999999"

definition valid_itimerval :: "itimerval \<Rightarrow> bool" where
  "valid_itimerval t \<longleftrightarrow>
     canonical_timeval (it_interval_sec t) (it_interval_usec t) \<and>
     canonical_timeval (it_value_sec t) (it_value_usec t)"

definition sys_setitimer :: "itimerval \<Rightarrow> world \<Rightarrow> (int \<times> itimerval option) \<times> world" where
  "sys_setitimer timer w =
     (if valid_itimerval timer
      then ((0, Some (itimer_real w)), emit (Ev_setitimer timer) (w\<lparr>itimer_real := timer\<rparr>))
      else ((- 1, None), emit (Ev_setitimer timer) w))"

text \<open>
  A local \<^verbatim>\<open>struct itimerval\<close> that nothing has written holds whatever the stack held:
  its four numbers are the environment's.
\<close>

definition indeterminate_itimerval :: "world \<Rightarrow> itimerval \<times> world" where
  "indeterminate_itimerval w =
     (let (a, w1) = reply w;
          (b, w2) = reply w1;
          (c, w3) = reply w2;
          (d, w4) = reply w3
      in (\<lparr>it_interval_sec = a, it_interval_usec = b, it_value_sec = c, it_value_usec = d\<rparr>,
          w4))"

text \<open>
  \<^verbatim>\<open>sigprocmask(SIG_SETMASK, &set, &oldset)\<close>: the result is the previous mask. With a null
  \<open>set\<close> the call only reads the mask, which is \<open>sigmask w\<close>.
\<close>

definition sys_sigprocmask :: "signal set \<Rightarrow> world \<Rightarrow> signal set \<times> world" where
  "sys_sigprocmask new_mask w =
     (sigmask w, emit (Ev_sigprocmask new_mask) (w\<lparr>sigmask := new_mask\<rparr>))"

text \<open>
  \<^verbatim>\<open>waitpid(pid, &status, options)\<close>. Its result is the environment's. A call without
  \<^verbatim>\<open>WNOHANG\<close> blocks, and the interval timer runs meanwhile: what is left of it when the
  call returns is the environment's as well.
\<close>

definition sys_waitpid :: "int \<Rightarrow> int \<Rightarrow> world \<Rightarrow> int \<times> world" where
  "sys_waitpid p options w =
     (let (r, w1) = reply w;
          w2 = emit (Ev_waitpid p options) w1
      in if options = WNOHANG then (r, w2)
         else
           (let (sec, w3) = reply w2;
                (usec, w4) = reply w3
            in (r, w4\<lparr>itimer_real := (itimer_real w4)\<lparr>it_value_sec := sec, it_value_usec := usec\<rparr>\<rparr>)))"


definition sys_ioctl :: "int \<Rightarrow> ioctl_request \<Rightarrow> int \<Rightarrow> world \<Rightarrow> world" where
  "sys_ioctl fd req arg w = emit (Ev_ioctl fd req arg) w"

text \<open>
  \<^verbatim>\<open>pipe(p)\<close>: the return code and, when it is not negative, the two descriptors stored in
  the array (read end, write end).
\<close>

definition sys_pipe :: "world \<Rightarrow> (int \<times> (int \<times> int) option) \<times> world" where
  "sys_pipe w =
     (let (rc, w1) = reply w
      in if rc < 0 then ((rc, None), emit (Ev_pipe None) w1)
         else
           (let (r, w2) = reply w1;
                (wr, w3) = reply w2
            in ((rc, Some (r, wr)), emit (Ev_pipe (Some (r, wr))) w3)))"

definition sys_fork :: "world \<Rightarrow> int \<times> world" where
  "sys_fork w = (let (p, w1) = reply w in (p, emit (Ev_fork p) w1))"

definition sys_dup2 :: "int \<Rightarrow> int \<Rightarrow> world \<Rightarrow> world" where
  "sys_dup2 oldfd newfd w = emit (Ev_dup2 oldfd newfd) w"

definition sys_close :: "int \<Rightarrow> world \<Rightarrow> world" where
  "sys_close fd w = emit (Ev_close fd) w"

section \<open>Child processes (src/process.c)\<close>

text \<open>
  \<^verbatim>\<open>
  bool wait_for_death(pid_t pid, long sec, long usec)
  {
    sigemptyset(&act.sa_mask);
    act.sa_handler = ignore_sigalarm;
    act.sa_flags = 0;
    sigaction(SIGALRM, &act, &oldact);
    timer.it_value.tv_sec = sec;
    timer.it_value.tv_usec = usec;
    timer.it_interval.tv_sec = 0;
    timer.it_interval.tv_usec = 0;
    setitimer(ITIMER_REAL, &timer, &otimer);
    result = (waitpid(pid, &status, 0) == pid);
    setitimer(ITIMER_REAL, &otimer, NULL);
    sigaction(SIGALRM, &oldact, NULL);
    return result;
  }
  \<close>
  The return codes of \<open>sigaction\<close> and \<open>setitimer\<close> are not looked at. \<open>otimer\<close> is a
  local without initialiser: when the first \<open>setitimer\<close> fails it is still unwritten
  when the second \<open>setitimer\<close> reads it.
\<close>

definition wait_for_death :: "int \<Rightarrow> int \<Rightarrow> int \<Rightarrow> world \<Rightarrow> bool \<times> world" where
  "wait_for_death p sec usec w =
     (let act = \<lparr>sa_handler = Fn_ignore_sigalarm, sa_mask = {}, sa_flags = 0\<rparr>;
          (oldact, w1) = sys_sigaction SIGALRM act w;
          timer = \<lparr>it_interval_sec = 0, it_interval_usec = 0,
                   it_value_sec = sec, it_value_usec = usec\<rparr>;
          ((rc, written), w2) = sys_setitimer timer w1;
          (otimer, w2') =
            (case written of
               Some previous \<Rightarrow> (previous, w2)
             | None \<Rightarrow> indeterminate_itimerval w2);
          (r, w3) = sys_waitpid p 0 w2';
          result = (r = p);
          w4 = snd (sys_setitimer otimer w3);
          w5 = snd (sys_sigaction SIGALRM oldact w4)
      in (result, w5))"


text \<open>
  \<^verbatim>\<open>
  void close_all_fds(void)
  {
    if (getrlimit(RLIMIT_NOFILE, &r) == 0)
      maxfd = r.rlim_cur;
    else
      maxfd = 1024;
    for (int i = 0; i < maxfd; i++) {
      switch (i) {
        case STDIN_FILENO: case STDOUT_FILENO: case STDERR_FILENO: break;
        default: (void) close(i); break;
      }
    }
  }
  \<close>
  \<open>rlim_cur\<close> is an unsigned 64-bit value and \<open>maxfd\<close> an \<open>int\<close>: the assignment keeps
  the low 32 bits, read as a signed number.
\<close>

definition close_all_fds :: "world \<Rightarrow> world" where
  "close_all_fds w =
     (let (rc, w1) = reply w;
          (maxfd, w2) =
            (if rc = 0
             then (let (cur, w') = reply w1 in (sint (word_of_int cur :: 32 word), w'))
             else (1024, w1))
      in fold (\<lambda>i w'. if i = STDIN_FILENO \<or> i = STDOUT_FILENO \<or> i = STDERR_FILENO
                       then w' else sys_close i w')
           [0 ..maxfd - 1] w2)"

text \<open>
  \<^verbatim>\<open>
  static int open_devnull(void)
  {
    static int devnull_fd = -1;
    if (devnull_fd < 0)
      devnull_fd = open("/dev/null", O_RDWR);
    return devnull_fd;
  }
  \<close>
\<close>

definition open_devnull :: "world \<Rightarrow> int \<times> world" where
  "open_devnull w =
     (if devnull_fd w < 0
      then (let (fd, w1) = reply w
            in (fd, emit (Ev_open_devnull fd) (w1\<lparr>devnull_fd := fd\<rparr>)))
      else (devnull_fd w, w))"

text \<open>
  Modelled from the spec: the header \<^verbatim>\<open>process.h\<close>, which declares
  \<^verbatim>\<open>struct child_process\<close> and the macros \<^verbatim>\<open>NO_REDIRECT\<close>, \<^verbatim>\<open>REDIRECT_DEV_NULL\<close>
  and \<^verbatim>\<open>REDIRECT_PIPE\<close>, is not among the sources. The spec's data model gives each of
  stdin, stdout and stderr one of no-redirect, pipe, redirect-to-null and redirect-to-fd;
  in the C code the field is an \<open>int\<close> that holds one of the three macros or a
  descriptor. \<open>has_function\<close> is \<^verbatim>\<open>child->function != NULL\<close>.
\<close>

datatype redirect = NO_REDIRECT | REDIRECT_DEV_NULL | REDIRECT_PIPE | Fd int

record child_process =
  pid :: int
  stdin_fd :: redirect
  stdout_fd :: redirect
  stderr_fd :: redirect
  has_function :: bool

text \<open>
  The arrays \<^verbatim>\<open>int stdin_pipe[2]\<close>, \<^verbatim>\<open>stdout_pipe\<close> and \<^verbatim>\<open>stderr_pipe\<close> are locals that
  \<open>pipe\<close> fills: \<open>None\<close> is an array that was never filled. Each is read only under the
  test \<^verbatim>\<open>== REDIRECT_PIPE\<close> under which it was filled.
\<close>

definition close_pipe :: "(int \<times> int) option \<Rightarrow> world \<Rightarrow> world" where
  "close_pipe pp w =
     (case pp of None \<Rightarrow> w | Some (r, wr) \<Rightarrow> sys_close wr (sys_close r w))"

text \<open>
  The child's part of \<open>create_child\<close> (\<^verbatim>\<open>if (child->pid == 0) { ... }\<close>):
  \<^verbatim>\<open>
  if (child->stdin_fd == REDIRECT_PIPE)
    (void) dup2(STDIN_FILENO, stdin_pipe[0]);
  else if (child->stdin_fd == REDIRECT_DEV_NULL)
    (void) dup2(STDIN_FILENO, open_devnull());
  else if (child->stdin_fd != NO_REDIRECT)
    (void) dup2(STDIN_FILENO, child->stdin_fd);
  \<close>
  and the same for \<open>stdout_fd\<close> with \<^verbatim>\<open>stdout_pipe[1]\<close> and for \<open>stderr_fd\<close> with
  \<^verbatim>\<open>stderr_pipe[1]\<close>; the first argument of \<open>dup2\<close> is \<^verbatim>\<open>STDIN_FILENO\<close> in all nine
  calls. \<open>redirect_stream\<close> is one such chain, \<open>pipe_end\<close> being the element of the array
  that it names.
\<close>

definition redirect_stream :: "redirect \<Rightarrow> int option \<Rightarrow> world \<Rightarrow> world" where
  "redirect_stream fd pipe_end w =
     (case fd of
        REDIRECT_PIPE \<Rightarrow>
          (case pipe_end of None \<Rightarrow> w | Some e \<Rightarrow> sys_dup2 STDIN_FILENO e w)
      | REDIRECT_DEV_NULL \<Rightarrow>
          (let (null, w1) = open_devnull w in sys_dup2 STDIN_FILENO null w1)
      | Fd n \<Rightarrow> sys_dup2 STDIN_FILENO n w
      | NO_REDIRECT \<Rightarrow> w)"

text \<open>
  \<^verbatim>\<open>
  (void) close_all_fds();
  (void) setgid(getgid());
  (void) setuid(getuid());
  if (child->function != NULL) {
    _exit(child->function(child->argument));
  } else {
    execv(child->path, (char *const*)child->argv);
  }
  _exit(1);
  \<close>
  What the function returns is the environment's, and so is whether \<open>execv\<close> fails
  (a negative reply), the only case in which it returns.
\<close>

definition child_branch ::
  "child_process \<Rightarrow> (int \<times> int) option \<Rightarrow> (int \<times> int) option \<Rightarrow> (int \<times> int) option
     \<Rightarrow> world \<Rightarrow> bool control \<times> world" where
  "child_branch child stdin_pipe stdout_pipe stderr_pipe w =
     (let w1 = redirect_stream (stdin_fd child) (map_option fst stdin_pipe) w;
          w2 = redirect_stream (stdout_fd child) (map_option snd stdout_pipe) w1;
          w3 = redirect_stream (stderr_fd child) (map_option snd stderr_pipe) w2;
          w4 = close_all_fds w3;
          w5 = emit Ev_setgid w4;
          w6 = emit Ev_setuid w5
      in if has_function child
         then (let (rc, w7) = reply (emit Ev_function w6) in (Exit rc, w7))
         else (let (rc, w7) = reply (emit Ev_execv w6)
               in if rc < 0 then (Exit 1, w7) else (Exec, w7)))"

text \<open>
  The three labels at the end of \<open>create_child\<close>, each falling through to the next:
  \<^verbatim>\<open>
  fork_failed:
    if (child->stderr_fd == REDIRECT_PIPE) { close(stderr_pipe[0]); close(stderr_pipe[1]); }
  stderr_pipe_failed:
    if (child->stdout_fd == REDIRECT_PIPE) { close(stdout_pipe[0]); close(stdout_pipe[1]); }
  stdout_pipe_failed:
    if (child->stdin_fd == REDIRECT_PIPE) { close(stdin_pipe[0]); close(stdin_pipe[1]); }
    return false;
  \<close>
\<close>

definition stdout_pipe_failed ::
  "child_process \<Rightarrow> (int \<times> int) option \<Rightarrow> world \<Rightarrow> bool control \<times> child_process \<times> world" where
  "stdout_pipe_failed child stdin_pipe w =
     (Return False, child,
      if stdin_fd child = REDIRECT_PIPE then close_pipe stdin_pipe w else w)"

definition stderr_pipe_failed ::
  "child_process \<Rightarrow> (int \<times> int) option \<Rightarrow> (int \<times> int) option \<Rightarrow> world
     \<Rightarrow> bool control \<times> child_process \<times> world" where
  "stderr_pipe_failed child stdin_pipe stdout_pipe w =
     stdout_pipe_failed child stdin_pipe
       (if stdout_fd child = REDIRECT_PIPE then close_pipe stdout_pipe w else w)"

definition fork_failed ::
  "child_process \<Rightarrow> (int \<times> int) option \<Rightarrow> (int \<times> int) option \<Rightarrow> (int \<times> int) option
     \<Rightarrow> world \<Rightarrow> bool control \<times> child_process \<times> world" where
  "fork_failed child stdin_pipe stdout_pipe stderr_pipe w =
     stderr_pipe_failed child stdin_pipe stdout_pipe
       (if stderr_fd child = REDIRECT_PIPE then close_pipe stderr_pipe w else w)"

text \<open>
  The parent's part after a successful \<open>fork\<close>, for one stream: the field takes the end
  that the parent keeps and the other end is closed.
  \<^verbatim>\<open>
  if (child->stdin_fd == REDIRECT_PIPE) {
    child->stdin_fd = stdin_pipe[1];   /* Write end. */
    (void) close(stdin_pipe[0]);       /* Read end. */
  }
  if (child->stdout_fd == REDIRECT_PIPE) {
    child->stdout_fd = stdout_pipe[0]; /* Read end. */
    (void) close(stdout_pipe[1]);      /* Write end. */
  }
  \<close>
  and \<open>stderr_fd\<close> as \<open>stdout_fd\<close>.
\<close>

definition parent_end :: "redirect \<Rightarrow> int option \<Rightarrow> int option \<Rightarrow> world \<Rightarrow> redirect \<times> world" where
  "parent_end fd kept closed w =
     (if fd = REDIRECT_PIPE
      then (case (kept, closed) of
              (Some k, Some c) \<Rightarrow> (Fd k, sys_close c w)
            | _ \<Rightarrow> (fd, w))
      else (fd, w))"

text \<open>
  \<^verbatim>\<open>
  bool create_child(struct child_process *child)
  {
    if (child->stdin_fd == REDIRECT_PIPE) {
      if (pipe(stdin_pipe) < 0)
        return false;
    }
    if (child->stdout_fd == REDIRECT_PIPE) {
      if (pipe(stdout_pipe) < 0)
        goto stdout_pipe_failed;
    }
    if (child->stderr_fd == REDIRECT_PIPE) {
      if (pipe(stderr_pipe) < 0)
        goto stderr_pipe_failed;
    }
    child->pid = fork();
    if (child->pid == 0) { ... }
    if (child->pid < 0)
      goto fork_failed;
    ...
    return true;
    ...
  }
  \<close>
  The model returns how the call ends, the descriptor \<^verbatim>\<open>*child\<close> and the state.
\<close>

definition request_pipe :: "redirect \<Rightarrow> world \<Rightarrow> (int \<times> (int \<times> int) option) \<times> world" where
  "request_pipe fd w = (if fd = REDIRECT_PIPE then sys_pipe w else ((0, None), w))"

definition create_child :: "child_process \<Rightarrow> world \<Rightarrow> bool control \<times> child_process \<times> world" where
  "create_child child w =
     (let ((rc_in, stdin_pipe), w1) = request_pipe (stdin_fd child) w
      in if rc_in < 0 then (Return False, child, w1)
         else
           (let ((rc_out, stdout_pipe), w2) = request_pipe (stdout_fd child) w1
            in if rc_out < 0 then stdout_pipe_failed child stdin_pipe w2
               else
                 (let ((rc_err, stderr_pipe), w3) = request_pipe (stderr_fd child) w2
                  in if rc_err < 0 then stderr_pipe_failed child stdin_pipe stdout_pipe w3
                     else
                       (let (p, w4) = sys_fork w3;
                            child1 = child\<lparr>pid := p\<rparr>
                        in if p = 0
                           then (let (c, w5) =
                                   child_branch child1 stdin_pipe stdout_pipe stderr_pipe w4
                                 in (c, child1, w5))
                           else if p < 0
                           then fork_failed child1 stdin_pipe stdout_pipe stderr_pipe w4
                           else
                             (let (fd_in, w5) =
                                    parent_end (stdin_fd child1) (map_option snd stdin_pipe)
                                      (map_option fst stdin_pipe) w4;
                                  (fd_out, w6) =
                                    parent_end (stdout_fd child1) (map_option fst stdout_pipe)
                                      (map_option snd stdout_pipe) w5;
                                  (fd_err, w7) =
                                    parent_end (stderr_fd child1) (map_option fst stderr_pipe)
                                      (map_option snd stderr_pipe) w6
                              in (Return True,
                                  child1\<lparr>stdin_fd := fd_in, stdout_fd := fd_out,
                                         stderr_fd := fd_err\<rparr>,
                                  w7))))))"

section \<open>Signal handling (src/signals.c)\<close>

text \<open>
  \<^verbatim>\<open>
  void release_vt(int signo) {
    if (!o_lock_all)
      ioctl(vfd, VT_RELDISP, 1); /* kernel is allowed to switch */
    else
      ioctl(vfd, VT_RELDISP, 0); /* kernel is not allowed to switch */
  }
  void acquire_vt(int signo) {
    ioctl(vfd, VT_RELDISP, VT_ACKACQ);
  }
  void signal_ignorer(int signo) {
    return;
  }
  \<close>
\<close>

definition release_vt :: "int \<Rightarrow> world \<Rightarrow> world" where
  "release_vt signo w =
     (if o_lock_all w = 0
      then sys_ioctl (vfd w) VT_RELDISP 1 w
      else sys_ioctl (vfd w) VT_RELDISP 0 w)"

definition acquire_vt :: "int \<Rightarrow> world \<Rightarrow> world" where
  "acquire_vt signo w = sys_ioctl (vfd w) VT_RELDISP VT_ACKACQ w"

definition signal_ignorer :: "int \<Rightarrow> world \<Rightarrow> world" where
  "signal_ignorer signo w = w"

text \<open>
  Modelled from the spec: \<open>restore_terminal\<close> is defined in a file that is not among the
  sources. The spec says of this step that terminal display and attributes are restored;
  the model records that the call was made.
\<close>

definition restore_terminal :: "world \<Rightarrow> world" where
  "restore_terminal w = emit Ev_restore_terminal w"

text \<open>
  \<^verbatim>\<open>
  void signal_die(int signo) {
    if(waitpid(-1, NULL, WNOHANG)) {
      /* The child must have read the correct password */
      /* restore the VT settings before exiting */
      restore_terminal();
      exit(0);
    }
  }
  \<close>
\<close>

definition signal_die :: "int \<Rightarrow> world \<Rightarrow> unit control \<times> world" where
  "signal_die signo w =
     (let (r, w1) = sys_waitpid (- 1) WNOHANG w
      in if r \<noteq> 0 then (Exit 0, restore_terminal w1) else (Return (), w1))"

text \<open>
  \<^verbatim>\<open>
  void mask_signals(void) {
    static sigset_t sig;
    static struct sigaction sa;
    sigprocmask(SIG_SETMASK, NULL, &sig);
    sigdelset(&sig, SIGUSR1);
    sigdelset(&sig, SIGUSR2);
    sigaddset(&sig, SIGTSTP);
    sigaddset(&sig, SIGTTIN);
    sigaddset(&sig, SIGTTOU);
    sigaddset(&sig, SIGHUP);
    sigdelset(&sig, SIGCHLD);
    sigprocmask(SIG_SETMASK, &sig, &osig);
    sigemptyset(&(sa.sa_mask));
    sa.sa_flags = 0;
    sa.sa_handler = release_vt;
    sigaction(SIGUSR1, &sa, NULL);
    sa.sa_handler = acquire_vt;
    sigaction(SIGUSR2, &sa, NULL);
    sa.sa_handler = signal_ignorer;
    sigaction(SIGTSTP, &sa, NULL);
    sigaction(SIGTTIN, &sa, NULL);
    sigaction(SIGTTOU, &sa, NULL);
    sigaction(SIGHUP, &sa, NULL);
    sa.sa_handler = signal_die;
    sigaction(SIGCHLD, &sa, NULL);
  }
  \<close>
  The statics \<open>sig\<close> and \<open>sa\<close> are written before they are read in every call and are
  read nowhere else: they are locals of the model.
\<close>

definition mask_signals :: "world \<Rightarrow> world" where
  "mask_signals w =
     (let sig0 = sigmask w;
          sig1 = sig0 - {SIGUSR1};
          sig2 = sig1 - {SIGUSR2};
          sig3 = insert SIGTSTP sig2;
          sig4 = insert SIGTTIN sig3;
          sig5 = insert SIGTTOU sig4;
          sig6 = insert SIGHUP sig5;
          sig7 = sig6 - {SIGCHLD};
          (old, w1) = sys_sigprocmask sig7 w;
          w2 = w1\<lparr>osig := old\<rparr>;
          sa = \<lparr>sa_handler = Fn_release_vt, sa_mask = {}, sa_flags = 0\<rparr>;
          w3 = snd (sys_sigaction SIGUSR1 sa w2);
          sa = sa\<lparr>sa_handler := Fn_acquire_vt\<rparr>;
          w4 = snd (sys_sigaction SIGUSR2 sa w3);
          sa = sa\<lparr>sa_handler := Fn_signal_ignorer\<rparr>;
          w5 = snd (sys_sigaction SIGTSTP sa w4);
          w6 = snd (sys_sigaction SIGTTIN sa w5);
          w7 = snd (sys_sigaction SIGTTOU sa w6);
          w8 = snd (sys_sigaction SIGHUP sa w7);
          sa = sa\<lparr>sa_handler := Fn_signal_die\<rparr>
      in snd (sys_sigaction SIGCHLD sa w8))"

text \<open>
  \<^verbatim>\<open>
  void ignore_sigchld(void) {
    sigemptyset(&(sa.sa_mask));
    sa.sa_flags = 0;
    sa.sa_handler = signal_ignorer;
    sigaction(SIGCHLD, &sa, NULL);
  }
  void restore_signals(void) {
    sigprocmask(SIG_SETMASK, &osig, NULL);
  }
  \<close>
\<close>

definition ignore_sigchld :: "world \<Rightarrow> world" where
  "ignore_sigchld w =
     snd (sys_sigaction SIGCHLD
       \<lparr>sa_handler = Fn_signal_ignorer, sa_mask = {}, sa_flags = 0\<rparr> w)"

definition restore_signals :: "world \<Rightarrow> world" where
  "restore_signals w = snd (sys_sigprocmask (osig w) w)"

section \<open>Notions used in the statements\<close>

text \<open>
  A process before any of the modelled code has run: no signal blocked, default
  dispositions, the timer disarmed, and an environment that answers \<open>0\<close> to every call.
\<close>

definition initial_world :: world where
  "initial_world =
     \<lparr>replies = (\<lambda>n. 0), calls = 0, trace = [], sigmask = {},
      actions = (\<lambda>s. \<lparr>sa_handler = SIG_DFL, sa_mask = {}, sa_flags = 0\<rparr>),
      itimer_real = \<lparr>it_interval_sec = 0, it_interval_usec = 0,
                      it_value_sec = 0, it_value_usec = 0\<rparr>,
      o_lock_all = 0, vfd = 3, osig = {}, devnull_fd = - 1\<rparr>"

text \<open>The calls made between two states of one run.\<close>

definition new_events :: "world \<Rightarrow> world \<Rightarrow> event list" where
  "new_events w w' = drop (length (trace w)) (trace w')"

text \<open>A failed \<open>pipe\<close>, or a \<open>fork\<close> that returned a negative pid.\<close>

fun is_failure :: "event \<Rightarrow> bool" where
  "is_failure (Ev_pipe None) = True"
| "is_failure (Ev_fork p) = (p < 0)"
| "is_failure e = False"

text \<open>
  The descriptors that the \<open>pipe\<close> calls of a trace opened and that no later \<open>close\<close> of
  the trace closed, starting from the descriptors \<open>acc\<close>.
\<close>

fun open_fds :: "event list \<Rightarrow> int list \<Rightarrow> int list" where
  "open_fds [] acc = acc"
| "open_fds (Ev_pipe (Some (r, wr)) # es) acc = open_fds es (acc @ [r, wr])"
| "open_fds (Ev_close fd # es) acc = open_fds es (remove1 fd acc)"
| "open_fds (e # es) acc = open_fds es acc"

text \<open>
  What a return value of \<open>waitpid\<close> means: a positive value is the pid of the child that
  was reaped, \<open>0\<close> (only with \<^verbatim>\<open>WNOHANG\<close>) that no child has changed state, and \<open>-1\<close>
  an error, among them \<^verbatim>\<open>EINTR\<close> when a signal such as the timer's \<^verbatim>\<open>SIGALRM\<close>
  interrupted the wait, and \<^verbatim>\<open>ECHILD\<close>.
\<close>

datatype wait_outcome = Reaped int | Nothing_yet | Wait_failed

definition waitpid_outcome :: "int \<Rightarrow> wait_outcome" where
  "waitpid_outcome r =
     (if 0 < r then Reaped r else if r = 0 then Nothing_yet else Wait_failed)"

text \<open>
  The child-exit handler as the specification words it, for comparison with
  \<open>signal_die\<close>: the terminal is restored and the process exits only when the reap
  returns the pid of the supervised authentication child, \<open>auth_pid\<close>.
\<close>

definition signal_die_claimed :: "int \<Rightarrow> int \<Rightarrow> world \<Rightarrow> unit control \<times> world" where
  "signal_die_claimed auth_pid signo w =
     (let (r, w1) = sys_waitpid (- 1) WNOHANG w
      in if r = auth_pid then (Exit 0, restore_terminal w1) else (Return (), w1))"

section \<open>Properties of the sorter\<close>

lemma tsort_loop_no_edges: "tsort_loop zeros [] sorted_nodes = Inr ([], sorted_nodes @ zeros)"
proof (induction zeros arbitrary: sorted_nodes)
  case Nil
  show ?case by (subst tsort_loop.simps) simp
next
  case (Cons zero rest)
  have "edge_loop zero (Iter 0) [] rest = Inr ([], rest)"
    by (subst edge_loop_unfold) simp
  then show ?case
    using Cons.IH [of "sorted_nodes @ [zero]"] by (subst tsort_loop.simps) simp
qed

text \<open>
  C10: with an empty edge list, \<open>tsort\<close> returns true, the edge list is still empty and
  the node list on return is the node list passed in, in the same order.
\<close>

theorem tsort_no_edges_keeps_order: "tsort nodes [] = Inr (True, nodes, [])"
  by (simp add: tsort_def get_zeros_def tsort_loop_no_edges)

text \<open>
  No run of the loops that comes to an end has erased an edge: the first edge whose
  predecessor is the node taken from \<open>zeros\<close> is erased through the iterator, and the
  iterator is read next.
\<close>

lemma tsort_loop_keeps_edges:
  "tsort_loop zeros edges sorted_nodes = Inr (edges', sorted') \<Longrightarrow> edges' = edges"
proof (induction zeros arbitrary: sorted_nodes)
  case Nil
  then show ?case by (subst (asm) tsort_loop.simps) simp
next
  case (Cons zero rest)
  from Cons.prems obtain e z where
    inner: "edge_loop zero (Iter 0) edges rest = Inr (e, z)" and
    outer: "tsort_loop z e (sorted_nodes @ [zero]) = Inr (edges', sorted')"
    by (subst (asm) tsort_loop.simps) (auto split: sum.splits)
  from edge_loop_Inr [OF inner] have "e = edges" "z = rest" by simp_all
  with outer Cons.IH show ?case by simp
qed

lemma tsort_returns_with_all_edges:
  "tsort nodes edges = Inr (result, nodes', edges') \<Longrightarrow> edges' = edges"
  by (auto simp: tsort_def Let_def split: sum.splits dest: tsort_loop_keeps_edges)

text \<open>
  C1: the claim is that on an acyclic graph whose edges name listed nodes \<open>tsort\<close> returns
  true with the nodes in a topological order and the edge list empty. On the nodes
  \<open>1, 2\<close> with the one edge from \<open>1\<close> to \<open>2\<close> the code takes \<open>1\<close> from \<open>zeros\<close>,
  erases the edge with \<^verbatim>\<open>edges.remove(*it)\<close> and then reads \<^verbatim>\<open>(*it)->successor\<close>
  through the iterator of the erased element: it does not return true.
\<close>

theorem tsort_one_edge_reads_erased_iterator:
  "tsort [1, 2 :: nat] [\<lparr>predecessor = 1, successor = 2\<rparr>] = Inl Invalid_iterator"
  by code_simp

text \<open>
  C2: the claim is that on a graph with a cycle \<open>tsort\<close> returns false, leaves the edges
  of the cycle in the edge list and the nodes in their order. On the nodes \<open>1, 2, 3\<close>
  with the edges \<open>1 \<rightarrow> 2\<close>, \<open>2 \<rightarrow> 3\<close>, \<open>3 \<rightarrow> 2\<close> the code takes \<open>1\<close> from \<open>zeros\<close> and
  reads the iterator of the erased edge \<open>1 \<rightarrow> 2\<close>: it does not return false.
\<close>

theorem tsort_cycle_reads_erased_iterator:
  "tsort [1, 2, 3 :: nat]
     [\<lparr>predecessor = 1, successor = 2\<rparr>, \<lparr>predecessor = 2, successor = 3\<rparr>,
      \<lparr>predecessor = 3, successor = 2\<rparr>] = Inl Invalid_iterator"
  by code_simp

section \<open>Properties of the child-process routines\<close>

text \<open>
  With a duration in canonical form the first \<open>setitimer\<close> succeeds and \<open>otimer\<close> is the
  timer found at the call. The second \<open>setitimer\<close> sets it again when it is a timer
  that the kernel accepts, as every timer that the kernel handed out is.
\<close>

lemma wait_for_death_eq:
  assumes "canonical_timeval sec usec"
  shows "wait_for_death p sec usec w =
     (replies w (calls w) = p,
      w\<lparr>calls := calls w + 3,
        trace := trace w @
          [Ev_sigaction SIGALRM \<lparr>sa_handler = Fn_ignore_sigalarm, sa_mask = {}, sa_flags = 0\<rparr>,
           Ev_setitimer \<lparr>it_interval_sec = 0, it_interval_usec = 0,
                         it_value_sec = sec, it_value_usec = usec\<rparr>,
           Ev_waitpid p 0,
           Ev_setitimer (itimer_real w),
           Ev_sigaction SIGALRM (actions w SIGALRM)],
        itimer_real :=
          (if valid_itimerval (itimer_real w) then itimer_real w
           else \<lparr>it_interval_sec = 0, it_interval_usec = 0,
                  it_value_sec = replies w (Suc (calls w)),
                  it_value_usec = replies w (Suc (Suc (calls w)))\<rparr>)\<rparr>)"
  using assms
  by (simp add: wait_for_death_def sys_sigaction_def sys_setitimer_def sys_waitpid_def
      valid_itimerval_def canonical_timeval_def reply_def emit_def WNOHANG_def Let_def)

text \<open>
  C8 as stated fails, in two ways. For the pid \<open>-1\<close> a wait that fails (the timer fired,
  or any other error) returns \<open>-1\<close>, nothing has been reaped, and \<open>wait_for_death\<close>
  returns true. For the duration of 0 s and 1000000 \<mu>s the first \<open>setitimer\<close> fails and
  leaves \<open>otimer\<close> unwritten; the second one sets the timer from it, here to the value
  \<open>7\<close> in each field, where the timer found at the call was disarmed.
\<close>

theorem wait_for_death_true_without_reaping:
  "fst (wait_for_death (- 1) 0 500000 (initial_world\<lparr>replies := (\<lambda>n. - 1)\<rparr>)) = True \<and>
   waitpid_outcome (- 1) = Wait_failed \<and>
   itimer_real (snd (wait_for_death 100 0 1000000 (initial_world\<lparr>replies := (\<lambda>n. 7)\<rparr>))) =
     \<lparr>it_interval_sec = 7, it_interval_usec = 7, it_value_sec = 7, it_value_usec = 7\<rparr> \<and>
   itimer_real (initial_world\<lparr>replies := (\<lambda>n. 7)\<rparr>) =
     \<lparr>it_interval_sec = 0, it_interval_usec = 0, it_value_sec = 0, it_value_usec = 0\<rparr>"
  by (simp add: wait_for_death_def sys_sigaction_def sys_setitimer_def sys_waitpid_def
      indeterminate_itimerval_def valid_itimerval_def canonical_timeval_def reply_def
      emit_def WNOHANG_def Let_def waitpid_outcome_def initial_world_def)

text \<open>
  C8, amended: for every duration in the form that \<open>setitimer\<close> accepts (seconds not
  negative, microseconds from \<open>0\<close> to \<open>999999\<close>), every pid and whatever the
  environment does, \<open>wait_for_death\<close> sets the handler and the timer, each call handing
  back the previous value, before the blocking \<open>waitpid\<close>, and sets the saved timer and
  the saved disposition again after it: on return the dispositions (that of
  \<^verbatim>\<open>SIGALRM\<close> among them) and the real-time timer are the ones found at the call, the
  timer found being one that the kernel accepts, and the signal mask is untouched. For
  the pid of a child (a positive pid) it returns true exactly when the wait reaped that
  pid, and false when the wait failed (timeout or error) or reaped another pid.
\<close>

theorem wait_for_death_restores:
  assumes "canonical_timeval sec usec" and "valid_itimerval (itimer_real w)"
  shows "actions (snd (wait_for_death p sec usec w)) = actions w \<and>
   itimer_real (snd (wait_for_death p sec usec w)) = itimer_real w \<and>
   sigmask (snd (wait_for_death p sec usec w)) = sigmask w \<and>
   trace (snd (wait_for_death p sec usec w)) = trace w @
     [Ev_sigaction SIGALRM \<lparr>sa_handler = Fn_ignore_sigalarm, sa_mask = {}, sa_flags = 0\<rparr>,
      Ev_setitimer \<lparr>it_interval_sec = 0, it_interval_usec = 0,
                    it_value_sec = sec, it_value_usec = usec\<rparr>,
      Ev_waitpid p 0,
      Ev_setitimer (itimer_real w),
      Ev_sigaction SIGALRM (actions w SIGALRM)] \<and>
   (0 < p \<longrightarrow>
      fst (wait_for_death p sec usec w) =
        (waitpid_outcome (replies w (calls w)) = Reaped p))"
  using assms by (auto simp: wait_for_death_eq waitpid_outcome_def)

theorem wait_for_death_restores_witness:
  "canonical_timeval 0 500000 \<and>
   valid_itimerval (itimer_real (initial_world\<lparr>replies := (\<lambda>n. if n = 0 then 100 else 3)\<rparr>)) \<and>
   fst (wait_for_death 100 0 500000
     (initial_world\<lparr>replies := (\<lambda>n. if n = 0 then 100 else 3)\<rparr>)) = True \<and>
   itimer_real (snd (wait_for_death 100 0 500000
     (initial_world\<lparr>replies := (\<lambda>n. if n = 0 then 100 else 3)\<rparr>))) =
     \<lparr>it_interval_sec = 0, it_interval_usec = 0, it_value_sec = 0, it_value_usec = 0\<rparr> \<and>
   sa_handler (actions (snd (wait_for_death 100 0 500000
     (initial_world\<lparr>replies := (\<lambda>n. if n = 0 then 100 else 3)\<rparr>))) SIGALRM) = SIG_DFL \<and>
   fst (wait_for_death 100 0 500000 (initial_world\<lparr>replies := (\<lambda>n. - 1)\<rparr>)) = False"
proof -
  have duration: "canonical_timeval 0 500000"
    by (simp add: canonical_timeval_def)
  have timer: "valid_itimerval (itimer_real (initial_world\<lparr>replies := f\<rparr>))" for f
    by (simp add: valid_itimerval_def canonical_timeval_def initial_world_def)
  from wait_for_death_restores [OF duration timer, of 100 "\<lambda>n. if n = 0 then 100 else 3"]
    wait_for_death_restores [OF duration timer, of 100 "\<lambda>n. - 1"]
    duration timer [of "\<lambda>n. if n = 0 then 100 else 3"]
  show ?thesis
    by (simp add: waitpid_outcome_def initial_world_def)
qed


lemma child_branch_never_returns [simp]:
  "child_branch child a b c w = (Return r, w') \<longleftrightarrow> False"
  by (auto simp: child_branch_def Let_def split: prod.splits if_splits)

lemma fold_close_trace:
  "\<exists>fds. trace (fold (\<lambda>i w'. if P i then w' else sys_close i w') xs w) =
     trace w @ map Ev_close fds"
proof (induction xs arbitrary: w)
  case Nil
  show ?case by simp
next
  case (Cons x xs)
  show ?case
  proof (cases "P x")
    case True
    with Cons.IH [of w] show ?thesis by simp
  next
    case False
    from Cons.IH [of "sys_close x w"] obtain fds where
      "trace (fold (\<lambda>i w'. if P i then w' else sys_close i w') xs (sys_close x w)) =
         trace (sys_close x w) @ map Ev_close fds" by blast
    with False have "trace (fold (\<lambda>i w'. if P i then w' else sys_close i w') (x # xs) w) =
        trace w @ map Ev_close (x # fds)"
      by (simp add: sys_close_def emit_def)
    then show ?thesis by blast
  qed
qed

lemma close_all_fds_trace: "\<exists>fds. trace (close_all_fds w) = trace w @ map Ev_close fds"
proof -
  define m where "m =
    (if fst (reply w) = 0
     then (sint (word_of_int (fst (reply (snd (reply w)))) :: 32 word), snd (reply (snd (reply w))))
     else (1024, snd (reply w)))"
  have unfold: "close_all_fds w =
      fold (\<lambda>i w'. if i = STDIN_FILENO \<or> i = STDOUT_FILENO \<or> i = STDERR_FILENO
                     then w' else sys_close i w') [0 ..fst m - 1] (snd m)"
    by (simp add: close_all_fds_def m_def Let_def split_def)
  have start: "trace (snd m) = trace w"
    by (simp add: m_def reply_def)
  from fold_close_trace [of "\<lambda>i. i = STDIN_FILENO \<or> i = STDOUT_FILENO \<or> i = STDERR_FILENO"
      "[0 ..fst m - 1]" "snd m"]
  show ?thesis
    unfolding unfold start .
qed

lemma redirect_stream_trace:
  "\<exists>evs. trace (redirect_stream fd e w) = trace w @ evs \<and> \<not> list_ex is_failure evs"
  by (cases fd; cases e)
     (simp_all add: redirect_stream_def sys_dup2_def open_devnull_def reply_def emit_def
       Let_def split_def)

lemma child_branch_trace:
  "\<exists>evs. trace (snd (child_branch child a b c w)) = trace w @ evs \<and> \<not> list_ex is_failure evs"
proof -
  obtain e1 where e1: "trace (redirect_stream (stdin_fd child) (map_option fst a) w) = trace w @ e1"
      "\<not> list_ex is_failure e1"
    using redirect_stream_trace by blast
  define w1 where "w1 = redirect_stream (stdin_fd child) (map_option fst a) w"
  obtain e2 where e2: "trace (redirect_stream (stdout_fd child) (map_option snd b) w1) = trace w1 @ e2"
      "\<not> list_ex is_failure e2"
    using redirect_stream_trace by blast
  define w2 where "w2 = redirect_stream (stdout_fd child) (map_option snd b) w1"
  obtain e3 where e3: "trace (redirect_stream (stderr_fd child) (map_option snd c) w2) = trace w2 @ e3"
      "\<not> list_ex is_failure e3"
    using redirect_stream_trace by blast
  define w3 where "w3 = redirect_stream (stderr_fd child) (map_option snd c) w2"
  obtain fds where fds: "trace (close_all_fds w3) = trace w3 @ map Ev_close fds"
    using close_all_fds_trace by blast
  have quiet: "\<not> list_ex is_failure (map Ev_close fds)"
    by (induction fds) simp_all
  have "trace (snd (child_branch child a b c w)) =
      trace w @ e1 @ e2 @ e3 @ map Ev_close fds @
        [Ev_setgid, Ev_setuid, if has_function child then Ev_function else Ev_execv]"
    using e1(1) e2(1) e3(1) fds
    by (simp add: child_branch_def Let_def split_def reply_def emit_def
        w1_def [symmetric] w2_def [symmetric] w3_def [symmetric])
  moreover have "\<not> list_ex is_failure (e1 @ e2 @ e3 @ map Ev_close fds @
        [Ev_setgid, Ev_setuid, if has_function child then Ev_function else Ev_execv])"
    using e1(2) e2(2) e3(2) quiet by simp
  ultimately show ?thesis by blast
qed

lemma child_branch_traceD:
  "child_branch child a b c w = (x, w') \<Longrightarrow>
     \<exists>evs. trace w' = trace w @ evs \<and> \<not> list_ex is_failure evs"
  using child_branch_trace [of child a b c w] by simp

text \<open>A call that does not return false has seen no \<open>pipe\<close> fail and no negative pid.\<close>

lemma create_child_no_failure:
  assumes "create_child child w = (c, child', w')" and "c \<noteq> Return False"
  shows "\<not> list_ex is_failure (new_events w w')"
  using assms
  by (cases "stdin_fd child = REDIRECT_PIPE"; cases "stdout_fd child = REDIRECT_PIPE";
      cases "stderr_fd child = REDIRECT_PIPE")
     (auto simp: create_child_def request_pipe_def sys_pipe_def reply_def emit_def Let_def
      stdout_pipe_failed_def stderr_pipe_failed_def fork_failed_def
      sys_close_def sys_fork_def parent_end_def new_events_def
      split: if_splits prod.splits dest!: child_branch_traceD)

text \<open>A call that returns false has closed what it opened and left the three fields.\<close>

lemma create_child_false:
  assumes "create_child child w = (Return False, child', w')"
  shows "stdin_fd child' = stdin_fd child \<and> stdout_fd child' = stdout_fd child \<and>
         stderr_fd child' = stderr_fd child \<and> open_fds (new_events w w') [] = []"
  using assms
  by (cases "stdin_fd child = REDIRECT_PIPE"; cases "stdout_fd child = REDIRECT_PIPE";
      cases "stderr_fd child = REDIRECT_PIPE")
     (auto simp: create_child_def request_pipe_def sys_pipe_def reply_def emit_def Let_def
      stdout_pipe_failed_def stderr_pipe_failed_def fork_failed_def close_pipe_def
      sys_close_def sys_fork_def parent_end_def new_events_def
      split: if_splits prod.splits)

text \<open>
  C3: whenever a \<open>pipe\<close> fails or \<open>fork\<close> returns a negative pid during a call of
  \<open>create_child\<close>, the call returns false, every descriptor that a \<open>pipe\<close> of this call
  opened has been closed again, and the fields \<open>stdin_fd\<close>, \<open>stdout_fd\<close> and
  \<open>stderr_fd\<close> of the descriptor hold what they held at the call.
\<close>

theorem create_child_fails_cleanly:
  assumes "create_child child w = (c, child', w')"
    and "list_ex is_failure (new_events w w')"
  shows "c = Return False \<and> open_fds (new_events w w') [] = [] \<and>
         stdin_fd child' = stdin_fd child \<and> stdout_fd child' = stdout_fd child \<and>
         stderr_fd child' = stderr_fd child"
proof -
  from assms have c: "c = Return False"
    using create_child_no_failure by blast
  with assms(1) create_child_false [of child w child' w'] show ?thesis
    by simp
qed

theorem create_child_fails_cleanly_witness:
  "list_ex is_failure [Ev_pipe (Some (5, 6)), Ev_pipe None, Ev_close 5, Ev_close 6] \<and>
   create_child
     \<lparr>pid = 0, stdin_fd = REDIRECT_PIPE, stdout_fd = REDIRECT_PIPE,
      stderr_fd = NO_REDIRECT, has_function = True\<rparr>
     (initial_world\<lparr>replies :=
        (\<lambda>n. if n = 1 then 5 else if n = 2 then 6 else if n = 3 then - 1 else 0)\<rparr>) =
   (Return False,
    \<lparr>pid = 0, stdin_fd = REDIRECT_PIPE, stdout_fd = REDIRECT_PIPE,
      stderr_fd = NO_REDIRECT, has_function = True\<rparr>,
    initial_world\<lparr>replies :=
        (\<lambda>n. if n = 1 then 5 else if n = 2 then 6 else if n = 3 then - 1 else 0),
      calls := 4,
      trace := [Ev_pipe (Some (5, 6)), Ev_pipe None, Ev_close 5, Ev_close 6]\<rparr>) \<and>
   open_fds [Ev_pipe (Some (5, 6)), Ev_pipe None, Ev_close 5, Ev_close 6] [] = []"
proof -
  have run: "create_child
     \<lparr>pid = 0, stdin_fd = REDIRECT_PIPE, stdout_fd = REDIRECT_PIPE,
      stderr_fd = NO_REDIRECT, has_function = True\<rparr>
     (initial_world\<lparr>replies :=
        (\<lambda>n. if n = 1 then 5 else if n = 2 then 6 else if n = 3 then - 1 else 0)\<rparr>) =
   (Return False,
    \<lparr>pid = 0, stdin_fd = REDIRECT_PIPE, stdout_fd = REDIRECT_PIPE,
      stderr_fd = NO_REDIRECT, has_function = True\<rparr>,
    initial_world\<lparr>replies :=
        (\<lambda>n. if n = 1 then 5 else if n = 2 then 6 else if n = 3 then - 1 else 0),
      calls := 4,
      trace := [Ev_pipe (Some (5, 6)), Ev_pipe None, Ev_close 5, Ev_close 6]\<rparr>)"
    by (simp add: create_child_def request_pipe_def sys_pipe_def reply_def emit_def Let_def
        stdout_pipe_failed_def close_pipe_def sys_close_def initial_world_def)
  have failed: "list_ex is_failure (new_events
      (initial_world\<lparr>replies :=
         (\<lambda>n. if n = 1 then 5 else if n = 2 then 6 else if n = 3 then - 1 else 0)\<rparr>)
      (initial_world\<lparr>replies :=
         (\<lambda>n. if n = 1 then 5 else if n = 2 then 6 else if n = 3 then - 1 else 0),
       calls := 4,
       trace := [Ev_pipe (Some (5, 6)), Ev_pipe None, Ev_close 5, Ev_close 6]\<rparr>))"
    by (simp add: new_events_def initial_world_def)
  from create_child_fails_cleanly [OF run failed] run show ?thesis
    by (simp add: new_events_def initial_world_def)
qed

text \<open>
  C4: the claim is that in the child each stream is redirected to its own target, a
  stream marked pipe by duplicating its pipe end onto the stream. With only \<open>stdout_fd\<close>
  marked pipe, \<open>pipe\<close> giving the descriptors \<open>5\<close> (read end) and \<open>6\<close> (write end),
  \<open>fork\<close> returning \<open>0\<close> and a descriptor limit of \<open>8\<close>, the only \<open>dup2\<close> of the child
  is \<^verbatim>\<open>dup2(STDIN_FILENO, 6)\<close>, which makes descriptor \<open>6\<close> a copy of standard input;
  the call that the claim describes, \<^verbatim>\<open>dup2(6, STDOUT_FILENO)\<close>, is not made.
\<close>

theorem create_child_stdout_pipe_dup2:
  "trace (snd (snd (create_child
     \<lparr>pid = 0, stdin_fd = NO_REDIRECT, stdout_fd = REDIRECT_PIPE,
      stderr_fd = NO_REDIRECT, has_function = True\<rparr>
     (initial_world\<lparr>replies :=
        (\<lambda>n. if n = 1 then 5 else if n = 2 then 6 else if n = 5 then 8 else 0)\<rparr>)))) =
     [Ev_pipe (Some (5, 6)), Ev_fork 0, Ev_dup2 STDIN_FILENO 6,
      Ev_close 3, Ev_close 4, Ev_close 5, Ev_close 6, Ev_close 7,
      Ev_setgid, Ev_setuid, Ev_function] \<and>
   Ev_dup2 6 STDOUT_FILENO \<notin> set (trace (snd (snd (create_child
     \<lparr>pid = 0, stdin_fd = NO_REDIRECT, stdout_fd = REDIRECT_PIPE,
      stderr_fd = NO_REDIRECT, has_function = True\<rparr>
     (initial_world\<lparr>replies :=
        (\<lambda>n. if n = 1 then 5 else if n = 2 then 6 else if n = 5 then 8 else 0)\<rparr>)))))"
  by (simp add: create_child_def request_pipe_def sys_pipe_def reply_def emit_def Let_def
      sys_fork_def child_branch_def redirect_stream_def sys_dup2_def close_all_fds_def
      sys_close_def initial_world_def STDIN_FILENO_def STDOUT_FILENO_def STDERR_FILENO_def
      upto.simps)

section \<open>Properties of the signal handlers\<close>

text \<open>
  C6: \<open>release_vt\<close> makes one call, \<^verbatim>\<open>ioctl(vfd, VT_RELDISP, arg)\<close>, with \<open>arg = 0\<close>
  (the kernel may not switch) when \<open>o_lock_all\<close> is set and \<open>arg = 1\<close> (it may) when
  it is clear, and leaves everything else in the state as it was.
\<close>

theorem release_vt_tells_kernel:
  "release_vt signo w =
     w\<lparr>trace := trace w @
         [Ev_ioctl (vfd w) VT_RELDISP (if o_lock_all w \<noteq> 0 then 0 else 1)]\<rparr>"
  by (simp add: release_vt_def sys_ioctl_def emit_def)

text \<open>
  C7 as stated fails: \<open>signal_die\<close> restores the terminal and exits when the reap
  returns the pid \<open>200\<close> of a child other than the supervised one (here \<open>100\<close>), and when
  it returns \<open>-1\<close>, where the handler of the claim returns.
\<close>

theorem signal_die_exits_for_other_child:
  "fst (signal_die 17 (initial_world\<lparr>replies := (\<lambda>n. 200)\<rparr>)) = Exit 0 \<and>
   fst (signal_die_claimed 100 17 (initial_world\<lparr>replies := (\<lambda>n. 200)\<rparr>)) = Return () \<and>
   fst (signal_die 17 (initial_world\<lparr>replies := (\<lambda>n. - 1)\<rparr>)) = Exit 0 \<and>
   fst (signal_die_claimed 100 17 (initial_world\<lparr>replies := (\<lambda>n. - 1)\<rparr>)) = Return ()"
  by (simp add: signal_die_def signal_die_claimed_def sys_waitpid_def restore_terminal_def
      reply_def emit_def Let_def initial_world_def)

text \<open>
  C7, amended: \<open>signal_die\<close> makes one non-blocking reap of any child
  (\<^verbatim>\<open>waitpid(-1, NULL, WNOHANG)\<close>). When the reap returns the pid of a child that has
  exited (a positive number), whichever child it is, the handler restores the terminal
  and the process exits with status \<open>0\<close>. When the reap returns \<open>0\<close> (no child has
  exited), the handler returns and has done nothing else.
\<close>

theorem signal_die_any_child:
  "(0 < replies w (calls w) \<longrightarrow>
      signal_die signo w =
        (Exit 0, w\<lparr>calls := Suc (calls w),
                   trace := trace w @ [Ev_waitpid (- 1) WNOHANG, Ev_restore_terminal]\<rparr>)) \<and>
   (replies w (calls w) = 0 \<longrightarrow>
      signal_die signo w =
        (Return (), w\<lparr>calls := Suc (calls w),
                       trace := trace w @ [Ev_waitpid (- 1) WNOHANG]\<rparr>))"
  by (simp add: signal_die_def sys_waitpid_def restore_terminal_def reply_def emit_def Let_def)

theorem signal_die_any_child_witness:
  "fst (signal_die 17 (initial_world\<lparr>replies := (\<lambda>n. 200)\<rparr>)) = Exit 0 \<and>
   trace (snd (signal_die 17 (initial_world\<lparr>replies := (\<lambda>n. 200)\<rparr>))) =
     [Ev_waitpid (- 1) WNOHANG, Ev_restore_terminal] \<and>
   fst (signal_die 17 initial_world) = Return () \<and>
   trace (snd (signal_die 17 initial_world)) = [Ev_waitpid (- 1) WNOHANG]"
  using signal_die_any_child [of "initial_world\<lparr>replies := (\<lambda>n. 200)\<rparr>" 17]
    signal_die_any_child [of initial_world 17]
  by (simp add: initial_world_def)

text \<open>
  C9 as stated fails: after \<open>mask_signals\<close>, started with no signal blocked,
  \<^verbatim>\<open>SIGTSTP\<close> is blocked in the signal mask.
\<close>

theorem mask_signals_blocks_SIGTSTP: "SIGTSTP \<in> sigmask (mask_signals initial_world)"
  by (simp add: mask_signals_def sys_sigprocmask_def sys_sigaction_def emit_def Let_def
      initial_world_def)

text \<open>
  C9, amended: after \<open>mask_signals\<close>, from any prior signal mask, \<^verbatim>\<open>SIGUSR1\<close>,
  \<^verbatim>\<open>SIGUSR2\<close> and \<^verbatim>\<open>SIGCHLD\<close> are not blocked, and \<^verbatim>\<open>SIGTSTP\<close>, \<^verbatim>\<open>SIGTTIN\<close>,
  \<^verbatim>\<open>SIGTTOU\<close> and \<^verbatim>\<open>SIGHUP\<close> are blocked in the signal mask and, as well, have the
  no-op handler \<open>signal_ignorer\<close> installed (with an empty handler mask and no flags).
\<close>

theorem mask_signals_blocks_and_ignores:
  "SIGUSR1 \<notin> sigmask (mask_signals w) \<and>
   SIGUSR2 \<notin> sigmask (mask_signals w) \<and>
   SIGCHLD \<notin> sigmask (mask_signals w) \<and>
   SIGTSTP \<in> sigmask (mask_signals w) \<and>
   SIGTTIN \<in> sigmask (mask_signals w) \<and>
   SIGTTOU \<in> sigmask (mask_signals w) \<and>
   SIGHUP \<in> sigmask (mask_signals w) \<and>
   actions (mask_signals w) SIGTSTP =
     \<lparr>sa_handler = Fn_signal_ignorer, sa_mask = {}, sa_flags = 0\<rparr> \<and>
   actions (mask_signals w) SIGTTIN =
     \<lparr>sa_handler = Fn_signal_ignorer, sa_mask = {}, sa_flags = 0\<rparr> \<and>
   actions (mask_signals w) SIGTTOU =
     \<lparr>sa_handler = Fn_signal_ignorer, sa_mask = {}, sa_flags = 0\<rparr> \<and>
   actions (mask_signals w) SIGHUP =
     \<lparr>sa_handler = Fn_signal_ignorer, sa_mask = {}, sa_flags = 0\<rparr>"
  by (simp add: mask_signals_def sys_sigprocmask_def sys_sigaction_def emit_def Let_def)

end
